theory Spec2Isabelle
  imports Complex_Main "HOL-Library.Sublist"
begin

section \<open>Values exchanged with the backend\<close>

text \<open>
  The viewer talks to its backend through \<^verbatim>\<open>apiFetch\<close> and reads response bodies
  with \<^verbatim>\<open>res.json()\<close>, \<^verbatim>\<open>res.text()\<close> and \<^verbatim>\<open>res.blob()\<close>. A parsed JSON
  body is a value of \<open>json\<close>; a string is the sequence of its UTF-8 bytes; an object is
  the list of its members in order.
\<close>

datatype json =
    JNull
  | JBool bool
  | JNum real
  | JStr string
  | JArr "json list"
  | JObj "(string \<times> json) list"

text \<open>
  What can be thrown: a TypeError (a property of \<^verbatim>\<open>null\<close> is read), and React's
  error for an object given as a child ("Objects are not valid as a React child").
\<close>

datatype js_error = TypeError | InvalidChild

text \<open>
  An awaited promise either rejects (the \<^verbatim>\<open>await\<close> throws) or is fulfilled with a
  value.
\<close>

datatype 'a settled = Rejected | Fulfilled 'a

type_synonym blob = string

record response =
  res_ok :: bool
  res_json :: "json settled"
  res_text :: "string settled"
  res_blob :: "blob settled"

text \<open>
  \<^verbatim>\<open>err.message\<close>, \<^verbatim>\<open>err.error\<close>: reading a property of \<^verbatim>\<open>null\<close> throws a
  TypeError; an object yields the member of that name (the last one, as
  \<^verbatim>\<open>JSON.parse\<close> keeps it) or \<^verbatim>\<open>undefined\<close>, written \<open>None\<close>; every other value
  has no property of these names. Only used for names that are not built-in
  properties.
\<close>

fun get_prop :: "json \<Rightarrow> string \<Rightarrow> js_error + json option" where
  "get_prop JNull k = Inl TypeError"
| "get_prop (JObj kvs) k = Inr (map_of (rev kvs) k)"
| "get_prop (JBool b) k = Inr None"
| "get_prop (JNum n) k = Inr None"
| "get_prop (JStr s) k = Inr None"
| "get_prop (JArr xs) k = Inr None"

text \<open>JavaScript truthiness of a value; \<^verbatim>\<open>undefined\<close> is \<open>None\<close>.\<close>

fun truthy :: "json option \<Rightarrow> bool" where
  "truthy None = False"
| "truthy (Some JNull) = False"
| "truthy (Some (JBool b)) = b"
| "truthy (Some (JNum n)) = (n \<noteq> 0)"
| "truthy (Some (JStr s)) = (s \<noteq> [])"
| "truthy (Some (JArr xs)) = True"
| "truthy (Some (JObj kvs)) = True"

text \<open>\<^verbatim>\<open>Array.isArray\<close>, and the elements of a value that is an array.\<close>

fun isArray :: "json \<Rightarrow> bool" where
  "isArray (JArr xs) = True"
| "isArray v = False"

fun elements :: "json \<Rightarrow> json list" where
  "elements (JArr xs) = xs"
| "elements v = []"

section \<open>The search filter and its query string\<close>

record search_filter =
  date :: string
  start_time :: string
  end_time :: string
  camera_id :: string
  plate :: string

text \<open>
  \<^verbatim>\<open>Object.entries(query)\<close>: the members in insertion order. The object is created
  with the five keys in this order and every update spreads the old object first, so
  the order never changes.
\<close>

definition entries :: "search_filter \<Rightarrow> (string \<times> string) list" where
  "entries q =
     [(''date'', date q), (''start_time'', start_time q), (''end_time'', end_time q),
      (''camera_id'', camera_id q), (''plate'', plate q)]"

text \<open>
  \<^verbatim>\<open>Object.entries(query).forEach(([k, v]) => { if (v) params.append(k, v); })\<close>:
  the loop over the entries, appending to the end of the parameter list. A string is
  truthy when it is not empty.
\<close>

fun append_entries :: "(string \<times> string) list \<Rightarrow> (string \<times> string) list \<Rightarrow> (string \<times> string) list" where
  "append_entries params [] = params"
| "append_entries params ((k, v) # es) =
     (if v \<noteq> [] then append_entries (params @ [(k, v)]) es else append_entries params es)"

definition search_params :: "search_filter \<Rightarrow> (string \<times> string) list" where
  "search_params q = append_entries [] (entries q)"

text \<open>
  \<^verbatim>\<open>params.toString()\<close>, the application/x-www-form-urlencoded serializer of the
  platform: a byte that is an ASCII letter or digit or one of \<^verbatim>\<open>*-._\<close> stands for
  itself, a space becomes \<^verbatim>\<open>+\<close>, every other byte becomes \<^verbatim>\<open>%\<close> and two upper-case
  hexadecimal digits; pairs are written \<^verbatim>\<open>name=value\<close> and joined with \<^verbatim>\<open>&\<close>.
\<close>

definition hex_digits :: string where
  "hex_digits = ''0123456789ABCDEF''"

definition unreserved :: string where
  "unreserved =
     ''abcdefghijklmnopqrstuvwxyzABCDEFGHIJKLMNOPQRSTUVWXYZ0123456789*-._''"

definition encode_byte :: "char \<Rightarrow> string" where
  "encode_byte c =
     (if c = CHR '' '' then ''+''
      else if c \<in> set unreserved then [c]
      else [CHR ''%'', hex_digits ! (of_char c div 16), hex_digits ! (of_char c mod 16)])"

definition urlencode :: "string \<Rightarrow> string" where
  "urlencode s = concat (map encode_byte s)"

definition encode_pair :: "string \<times> string \<Rightarrow> string" where
  "encode_pair p = urlencode (fst p) @ ''='' @ urlencode (snd p)"

fun join_amp :: "string list \<Rightarrow> string" where
  "join_amp [] = []"
| "join_amp [s] = s"
| "join_amp (s # t # ss) = s @ ''&'' @ join_amp (t # ss)"

definition toString :: "(string \<times> string) list \<Rightarrow> string" where
  "toString params = join_amp (map encode_pair params)"

definition search_url :: "search_filter \<Rightarrow> string" where
  "search_url q = ''/search?'' @ toString (search_params q)"

section \<open>The Player component\<close>

record player_state =
  videoUrl :: "string option"
  searchResults :: "json list"
  query :: search_filter

text \<open>
  What a handler does besides setting state: \<^verbatim>\<open>alert(x)\<close> with the value it was given
  (the browser shows its string form), and the \<^verbatim>\<open>setTimeout\<close> that plays the video
  after the given number of milliseconds.
\<close>

datatype effect = Alert json | PlayAfter nat

text \<open>
  \<^verbatim>\<open>err.message || err.error || 'Search failed'\<close>, evaluated left to right:
  \<open>or_else a rest\<close> is \<^verbatim>\<open>a || rest\<close>, the left value when it is truthy. Reading a
  property of \<^verbatim>\<open>null\<close> throws.
\<close>

fun or_else :: "json option \<Rightarrow> js_error + json \<Rightarrow> js_error + json" where
  "or_else None rest = rest"
| "or_else (Some v) rest = (if truthy (Some v) then Inr v else rest)"

definition failure_reason :: "json \<Rightarrow> js_error + json" where
  "failure_reason err =
     (case get_prop err ''message'' of
        Inl e \<Rightarrow> Inl e
      | Inr m \<Rightarrow>
          or_else m
            (case get_prop err ''error'' of
               Inl e \<Rightarrow> Inl e
             | Inr r \<Rightarrow> or_else r (Inr (JStr ''Search failed''))))"

text \<open>
  \<^verbatim>\<open>performSearch\<close>. \<open>apiFetch\<close> is the request helper: for a URL, the settled
  outcome of the request. Everything after the URL is built runs inside the
  \<^verbatim>\<open>try\<close>, so every rejection and every throw ends in the \<^verbatim>\<open>catch\<close>.
\<close>

definition on_search_response :: "player_state \<Rightarrow> response settled \<Rightarrow> player_state \<times> effect list" where
  "on_search_response st outcome =
     (case outcome of
        Rejected \<Rightarrow> (st, [Alert (JStr ''Network error'')])
      | Fulfilled res \<Rightarrow>
          if \<not> res_ok res then
            (case failure_reason (case res_json res of Rejected \<Rightarrow> JObj [] | Fulfilled v \<Rightarrow> v) of
               Inl e \<Rightarrow> (st, [Alert (JStr ''Network error'')])
             | Inr reason \<Rightarrow> (st, [Alert reason]))
          else
            (case res_json res of
               Rejected \<Rightarrow> (st, [Alert (JStr ''Network error'')])
             | Fulfilled data \<Rightarrow>
                 (st\<lparr>searchResults := (if isArray data then elements data else [])\<rparr>, [])))"

definition performSearch :: "(string \<Rightarrow> response settled) \<Rightarrow> player_state \<Rightarrow> player_state \<times> effect list" where
  "performSearch apiFetch st = on_search_response st (apiFetch (search_url (query st)))"

text \<open>
  \<^verbatim>\<open>loadVideo\<close>. The argument is the text the template literal makes of the video
  id; \<open>createObjectURL\<close> is the platform's \<^verbatim>\<open>URL.createObjectURL\<close>.
\<close>

definition on_video_response :: "(blob \<Rightarrow> string) \<Rightarrow> player_state \<Rightarrow> response settled \<Rightarrow> player_state \<times> effect list" where
  "on_video_response createObjectURL st outcome =
     (case outcome of
        Rejected \<Rightarrow> (st, [Alert (JStr ''Network error'')])
      | Fulfilled res \<Rightarrow>
          if \<not> res_ok res then
            (case res_text res of
               Rejected \<Rightarrow> (st, [Alert (JStr ''Network error'')])
             | Fulfilled txt \<Rightarrow>
                 (st, [Alert (JStr (if txt \<noteq> [] then txt else ''Failed to load video''))]))
          else
            (case res_blob res of
               Rejected \<Rightarrow> (st, [Alert (JStr ''Network error'')])
             | Fulfilled b \<Rightarrow> (st\<lparr>videoUrl := Some (createObjectURL b)\<rparr>, [PlayAfter 100])))"

definition loadVideo :: "(string \<Rightarrow> response settled) \<Rightarrow> (blob \<Rightarrow> string) \<Rightarrow> player_state \<Rightarrow> string \<Rightarrow> player_state \<times> effect list" where
  "loadVideo apiFetch createObjectURL st video_id =
     on_video_response createObjectURL st (apiFetch (''/video/decrypted/'' @ video_id))"

text \<open>
  What the component renders. \<open>auth_identity\<close> is the value that
  \<^verbatim>\<open>useContext(AuthContext)\<close> yields. A view is listed with the handlers its
  elements bind, in document order: the search form's \<^verbatim>\<open>onSubmit\<close> and
  \<^verbatim>\<open>onChange\<close>, and one Load button for each result. Mapping over the results reads \<^verbatim>\<open>r.video_id\<close>,
  which throws for a result that is \<^verbatim>\<open>null\<close>; React then refuses a
  \<^verbatim>\<open>filename\<close>, \<^verbatim>\<open>upload_date_ist\<close> or \<^verbatim>\<open>camera_id\<close> that is an object (or an
  array holding one).
\<close>

fun renderable :: "json \<Rightarrow> bool" where
  "renderable (JObj kvs) = False"
| "renderable (JArr xs) = list_all renderable xs"
| "renderable JNull = True"
| "renderable (JBool b) = True"
| "renderable (JNum n) = True"
| "renderable (JStr s) = True"

definition child_ok :: "json \<Rightarrow> string \<Rightarrow> bool" where
  "child_ok r k = (case get_prop r k of Inr (Some v) \<Rightarrow> renderable v | _ \<Rightarrow> True)"

record auth_identity =
  isAuthenticated :: bool
  user :: "string option"

datatype handler =
    OnSubmit_performSearch
  | OnChange_setQuery string
  | OnClick_loadVideo json
  | SignIn_handleSubmit
  | SignIn_handleChange string

text \<open>
  The sign-in card takes one prop, \<^verbatim>\<open>onSwitch\<close>, the handler of its
  "Create an account" button; \<open>None\<close> is a card rendered without it, whose button then
  binds nothing. The card's form binds \<^verbatim>\<open>handleSubmit\<close>, and its two inputs bind
  \<^verbatim>\<open>handleChange\<close> for \<^verbatim>\<open>email\<close> and \<^verbatim>\<open>password\<close>.
\<close>

datatype view =
    Message string
  | SignInCard "handler option"
  | PlayerView search_filter "json list" "string option"

definition Player :: "auth_identity \<Rightarrow> player_state \<Rightarrow> js_error + view" where
  "Player auth st =
     (if \<not> isAuthenticated auth then Inr (Message ''Please sign in to view videos.'')
      else if JNull \<in> set (searchResults st) then Inl TypeError
      else if \<not> list_all
          (\<lambda>r. child_ok r ''filename'' \<and> child_ok r ''upload_date_ist'' \<and> child_ok r ''camera_id'')
          (searchResults st)
        then Inl InvalidChild
      else Inr (PlayerView (query st) (searchResults st) (videoUrl st)))"

fun handlers :: "view \<Rightarrow> handler list" where
  "handlers (Message s) = []"
| "handlers (SignInCard onSwitch) =
     [SignIn_handleSubmit, SignIn_handleChange ''email'', SignIn_handleChange ''password'']
       @ (case onSwitch of None \<Rightarrow> [] | Some h \<Rightarrow> [h])"
| "handlers (PlayerView q rs v) =
     OnSubmit_performSearch # map OnChange_setQuery (map fst (entries q)) @ map OnClick_loadVideo rs"

text \<open>
  \<^verbatim>\<open>InnerApp\<close> shows the sign-in card, rendered as \<^verbatim>\<open><SignInCard />\<close> with no
  prop, to a caller who is not authenticated and the player otherwise (its
  \<^verbatim>\<open><main>\<close>). The exported \<^verbatim>\<open>App\<close> does not use it: it
  returns \<^verbatim>\<open><Player/>\<close>.
\<close>

definition InnerApp :: "auth_identity \<Rightarrow> player_state \<Rightarrow> js_error + view" where
  "InnerApp auth st = (if \<not> isAuthenticated auth then Inr (SignInCard None) else Player auth st)"

definition App :: "auth_identity \<Rightarrow> player_state \<Rightarrow> js_error + view" where
  "App auth st = Player auth st"

section \<open>The play, pause and stop buttons\<close>

text \<open>
  The stand-alone player component: \<^verbatim>\<open>videoRef.current\<close> is the mounted media
  element or \<^verbatim>\<open>null\<close>. \<^verbatim>\<open>play()\<close> and \<^verbatim>\<open>pause()\<close> are the platform's: they
  clear and set the element's \<^verbatim>\<open>paused\<close> flag. Reading \<^verbatim>\<open>video.paused\<close> of
  \<^verbatim>\<open>null\<close> throws. Neither function looks at the element's source.
\<close>

record media_element =
  paused :: bool
  currentTime :: real
  src :: "string option"

datatype command = Play | Pause

definition playPause :: "media_element option \<Rightarrow> js_error + media_element \<times> command list" where
  "playPause videoRef =
     (case videoRef of
        None \<Rightarrow> Inl TypeError
      | Some video \<Rightarrow>
          if paused video then Inr (video\<lparr>paused := False\<rparr>, [Play])
          else Inr (video\<lparr>paused := True\<rparr>, [Pause]))"

definition stopVideo :: "media_element option \<Rightarrow> js_error + media_element \<times> command list" where
  "stopVideo videoRef =
     (case videoRef of
        None \<Rightarrow> Inl TypeError
      | Some video \<Rightarrow> Inr (video\<lparr>paused := True, currentTime := 0\<rparr>, [Pause]))"

text \<open>
  The states of \<^verbatim>\<open>videoRef.current\<close> in which a button can be pressed. The component
  mounts \<^verbatim>\<open><video ref={videoRef} width="600" src="/video.mp4" />\<close>: an element that
  is paused at position 0 with that source. After that the two buttons run their
  functions, and the platform moves the position and the paused flag (playback going on,
  the media ending); nothing sets another source and nothing unmounts the element.
\<close>

inductive reachable :: "media_element option \<Rightarrow> bool" where
  mount: "reachable (Some \<lparr>paused = True, currentTime = 0, src = Some ''/video.mp4''\<rparr>)"
| click_playPause: "reachable r \<Longrightarrow> playPause r = Inr (v, cmds) \<Longrightarrow> reachable (Some v)"
| click_stopVideo: "reachable r \<Longrightarrow> stopVideo r = Inr (v, cmds) \<Longrightarrow> reachable (Some v)"
| platform: "reachable (Some v) \<Longrightarrow> reachable (Some (v\<lparr>paused := p, currentTime := t\<rparr>))"

section \<open>Reading a query string back\<close>

text \<open>
  To say which fields a query string carries, it is read the way a server reads it:
  cut at every \<^verbatim>\<open>&\<close>, empty pieces dropped, each piece cut at its first
  \<^verbatim>\<open>=\<close> (percent-decoding left out).
\<close>

fun split_on :: "char \<Rightarrow> string \<Rightarrow> string list" where
  "split_on c [] = [[]]"
| "split_on c (x # xs) =
     (if x = c then [] # split_on c xs
      else (case split_on c xs of [] \<Rightarrow> [[x]] | w # ws \<Rightarrow> (x # w) # ws))"

definition cut_at_eq :: "string \<Rightarrow> string \<times> string" where
  "cut_at_eq s = (takeWhile (\<lambda>c. c \<noteq> CHR ''='') s, drop 1 (dropWhile (\<lambda>c. c \<noteq> CHR ''='') s))"

definition query_string_pairs :: "string \<Rightarrow> (string \<times> string) list" where
  "query_string_pairs s = map cut_at_eq (filter (\<lambda>w. w \<noteq> []) (split_on (CHR ''&'') s))"

section \<open>Concrete inputs\<close>

text \<open>
  The state the component starts in (\<^verbatim>\<open>useState(null)\<close>, \<^verbatim>\<open>useState([])\<close> and the
  all-empty query), a state reached after some use, and backends for the examples
  below.
\<close>

definition empty_filter :: search_filter where
  "empty_filter = \<lparr>date = [], start_time = [], end_time = [], camera_id = [], plate = []\<rparr>"

definition sample_filter :: search_filter where
  "sample_filter =
     \<lparr>date = ''2024-01-01'', start_time = [], end_time = [], camera_id = ''3'', plate = ''AB 1&2''\<rparr>"

definition initial_state :: player_state where
  "initial_state = \<lparr>videoUrl = None, searchResults = [], query = empty_filter\<rparr>"

definition result_1 :: json where
  "result_1 =
     JObj [(''video_id'', JNum 1), (''filename'', JStr ''gate_a.mp4''),
           (''upload_date_ist'', JStr ''2024-01-01 10:00:00''), (''camera_id'', JStr ''3'')]"

definition result_2 :: json where
  "result_2 =
     JObj [(''video_id'', JNum 2), (''filename'', JStr ''gate_b.mp4''),
           (''upload_date_ist'', JStr ''2024-01-01 11:30:00''), (''camera_id'', JStr ''3'')]"

definition result_7 :: json where
  "result_7 =
     JObj [(''video_id'', JNum 7), (''filename'', JStr ''yard.mp4''),
           (''upload_date_ist'', JStr ''2023-12-24 08:15:00''), (''camera_id'', JStr ''1'')]"

definition used_state :: player_state where
  "used_state =
     \<lparr>videoUrl = Some ''blob:viewer/0001'', searchResults = [result_7], query = sample_filter\<rparr>"

definition no_backend :: "string \<Rightarrow> response settled" where
  "no_backend url = Rejected"

definition backend_sending :: "response \<Rightarrow> string \<Rightarrow> response settled" where
  "backend_sending res url = Fulfilled res"

definition json_reply :: "bool \<Rightarrow> json \<Rightarrow> response" where
  "json_reply status body =
     \<lparr>res_ok = status, res_json = Fulfilled body, res_text = Rejected, res_blob = Rejected\<rparr>"

definition text_reply :: "bool \<Rightarrow> string \<Rightarrow> response" where
  "text_reply status body =
     \<lparr>res_ok = status, res_json = Rejected, res_text = Fulfilled body, res_blob = Fulfilled body\<rparr>"

definition bad_date_payload :: json where
  "bad_date_payload = JObj [(''message'', JStr ''bad date'')]"

definition unknown_camera_payload :: json where
  "unknown_camera_payload = JObj [(''error'', JStr ''unknown camera'')]"

definition empty_message_payload :: json where
  "empty_message_payload = JObj [(''message'', JStr []), (''error'', JStr ''bad date'')]"

definition object_url :: "blob \<Rightarrow> string" where
  "object_url b = ''blob:viewer/'' @ b"

definition signed_out :: auth_identity where
  "signed_out = \<lparr>isAuthenticated = False, user = None\<rparr>"

definition signed_in :: auth_identity where
  "signed_in = \<lparr>isAuthenticated = True, user = Some ''asha''\<rparr>"



section \<open>The query string\<close>

lemma append_entries_filter:
  "append_entries params es = params @ filter (\<lambda>e. snd e \<noteq> []) es"
  by (induction params es rule: append_entries.induct) auto

lemma search_params_filter: "search_params q = filter (\<lambda>e. snd e \<noteq> []) (entries q)"
  by (simp add: search_params_def append_entries_filter)

lemma of_char_below_256: "(of_char c :: nat) < 256"
  by (cases c) simp

lemma hex_digit_in: "hex_digits ! (of_char c div 16) \<in> set hex_digits"
  and hex_digit_in': "hex_digits ! (of_char c mod 16) \<in> set hex_digits"
proof -
  have "(of_char c :: nat) div 16 < 16"
    using of_char_below_256 [of c] by arith
  then show "hex_digits ! (of_char c div 16) \<in> set hex_digits"
    by (intro nth_mem) (simp add: hex_digits_def)
  show "hex_digits ! (of_char c mod 16) \<in> set hex_digits"
    by (intro nth_mem) (simp add: hex_digits_def)
qed

lemma encode_byte_separators:
  "CHR ''&'' \<notin> set (encode_byte c)" "CHR ''='' \<notin> set (encode_byte c)"
proof -
  have h: "CHR ''&'' \<notin> set hex_digits" "CHR ''='' \<notin> set hex_digits"
    by (simp_all add: hex_digits_def)
  have u: "CHR ''&'' \<notin> set unreserved" "CHR ''='' \<notin> set unreserved"
    by (simp_all add: unreserved_def)
  from h u hex_digit_in [of c] hex_digit_in' [of c]
  show "CHR ''&'' \<notin> set (encode_byte c)" "CHR ''='' \<notin> set (encode_byte c)"
    by (auto simp: encode_byte_def)
qed

lemma urlencode_separators:
  "CHR ''&'' \<notin> set (urlencode s)" "CHR ''='' \<notin> set (urlencode s)"
  by (simp_all add: urlencode_def encode_byte_separators)

lemma encode_pair_no_amp: "CHR ''&'' \<notin> set (encode_pair p)"
  by (simp add: encode_pair_def urlencode_separators)

lemma encode_pair_nonempty: "encode_pair p \<noteq> []"
  by (simp add: encode_pair_def)

lemma split_on_absent: "c \<notin> set s \<Longrightarrow> split_on c s = [s]"
  by (induction s) auto

lemma split_on_first: "c \<notin> set s \<Longrightarrow> split_on c (s @ c # t) = s # split_on c t"
  by (induction s) auto

lemma split_join_amp:
  "ws \<noteq> [] \<Longrightarrow> \<forall>w \<in> set ws. CHR ''&'' \<notin> set w \<Longrightarrow> split_on (CHR ''&'') (join_amp ws) = ws"
proof (induction ws rule: join_amp.induct)
  case 1
  then show ?case by simp
next
  case (2 s)
  then show ?case by (simp add: split_on_absent)
next
  case (3 s t ss)
  then show ?case by (simp add: split_on_first)
qed

lemma cut_at_eq_pair: "cut_at_eq (encode_pair p) = (urlencode (fst p), urlencode (snd p))"
proof -
  have ne: "\<And>x. x \<in> set (urlencode (fst p)) \<Longrightarrow> x \<noteq> CHR ''=''"
    using urlencode_separators(2) [of "fst p"] by auto
  have t: "takeWhile (\<lambda>c. c \<noteq> CHR ''='') (urlencode (fst p) @ CHR ''='' # urlencode (snd p))
             = urlencode (fst p)"
    using ne by simp
  have d: "dropWhile (\<lambda>c. c \<noteq> CHR ''='') (urlencode (fst p) @ CHR ''='' # urlencode (snd p))
             = CHR ''='' # urlencode (snd p)"
    using ne by simp
  show ?thesis by (simp add: cut_at_eq_def encode_pair_def t d)
qed

lemma query_string_pairs_toString:
  "query_string_pairs (toString ps) = map (\<lambda>p. (urlencode (fst p), urlencode (snd p))) ps"
proof (cases "ps = []")
  case True
  then show ?thesis by (simp add: query_string_pairs_def toString_def)
next
  case False
  then have "split_on (CHR ''&'') (join_amp (map encode_pair ps)) = map encode_pair ps"
    by (intro split_join_amp) (auto simp: encode_pair_no_amp)
  then show ?thesis
    by (simp add: query_string_pairs_def toString_def encode_pair_nonempty cut_at_eq_pair comp_def)
qed

lemma field_names_unchanged:
  "map (\<lambda>p. (urlencode (fst p), urlencode (snd p))) (filter (\<lambda>e. snd e \<noteq> []) (entries q)) =
   map (\<lambda>e. (fst e, urlencode (snd e))) (filter (\<lambda>e. snd e \<noteq> []) (entries q))"
  by (simp add: entries_def urlencode_def encode_byte_def unreserved_def)

text \<open>
  C1. For every search filter, the parameters that \<open>performSearch\<close> sends are exactly
  the entries whose value is not empty, in the order date, start_time, end_time,
  camera_id, plate: the parameter list is the filter's entries without the empty ones,
  its names are a subsequence of the fixed order, and the query string, read back, has
  these pairs and no others. The request goes to \<^verbatim>\<open>/search?\<close> followed by that
  string, with no check before it; for the all-empty filter the URL is
  \<^verbatim>\<open>/search?\<close>.
\<close>

theorem query_string_exactly_nonempty_fields:
  "search_params q = filter (\<lambda>e. snd e \<noteq> []) (entries q)
   \<and> subseq (map fst (search_params q))
        [''date'', ''start_time'', ''end_time'', ''camera_id'', ''plate'']
   \<and> query_string_pairs (toString (search_params q)) =
        map (\<lambda>e. (fst e, urlencode (snd e))) (filter (\<lambda>e. snd e \<noteq> []) (entries q))
   \<and> performSearch apiFetch st =
        on_search_response st (apiFetch (''/search?'' @ toString (search_params (query st))))
   \<and> (date q = [] \<and> start_time q = [] \<and> end_time q = [] \<and> camera_id q = [] \<and> plate q = []
        \<longrightarrow> search_url q = ''/search?'')"
proof (intro conjI)
  show p: "search_params q = filter (\<lambda>e. snd e \<noteq> []) (entries q)"
    by (rule search_params_filter)
  have "subseq (map fst (filter (\<lambda>e. snd e \<noteq> []) (entries q))) (map fst (entries q))"
    by (simp add: subseq_map)
  then show "subseq (map fst (search_params q))
      [''date'', ''start_time'', ''end_time'', ''camera_id'', ''plate'']"
    by (simp add: p entries_def)
  show "query_string_pairs (toString (search_params q)) =
      map (\<lambda>e. (fst e, urlencode (snd e))) (filter (\<lambda>e. snd e \<noteq> []) (entries q))"
    by (simp only: p query_string_pairs_toString field_names_unchanged)
  show "performSearch apiFetch st =
      on_search_response st (apiFetch (''/search?'' @ toString (search_params (query st))))"
    by (simp add: performSearch_def search_url_def)
  show "date q = [] \<and> start_time q = [] \<and> end_time q = [] \<and> camera_id q = [] \<and> plate q = []
      \<longrightarrow> search_url q = ''/search?''"
    by (simp add: search_url_def p toString_def entries_def)
qed

theorem query_string_exactly_nonempty_fields_witness:
  "search_params sample_filter =
     [(''date'', ''2024-01-01''), (''camera_id'', ''3''), (''plate'', ''AB 1&2'')]
   \<and> query_string_pairs (toString (search_params sample_filter)) =
     [(''date'', ''2024-01-01''), (''camera_id'', ''3''), (''plate'', ''AB+1%262'')]
   \<and> date empty_filter = [] \<and> start_time empty_filter = [] \<and> end_time empty_filter = []
   \<and> camera_id empty_filter = [] \<and> plate empty_filter = []
   \<and> search_url empty_filter = ''/search?''
   \<and> performSearch no_backend initial_state = (initial_state, [Alert (JStr ''Network error'')])"
proof -
  have enc: "urlencode ''AB 1&2'' = ''AB+1%262''" "urlencode ''2024-01-01'' = ''2024-01-01''"
    "urlencode ''3'' = ''3''"
    by code_simp+
  have s: "filter (\<lambda>e. snd e \<noteq> []) (entries sample_filter) =
     [(''date'', ''2024-01-01''), (''camera_id'', ''3''), (''plate'', ''AB 1&2'')]"
    by (simp add: entries_def sample_filter_def)
  have e: "date empty_filter = [] \<and> start_time empty_filter = [] \<and> end_time empty_filter = []
   \<and> camera_id empty_filter = [] \<and> plate empty_filter = []"
    by (simp add: empty_filter_def)
  have u: "toString (search_params (query initial_state)) = []"
    by (simp add: initial_state_def empty_filter_def search_params_def entries_def toString_def)
  show ?thesis
    using query_string_exactly_nonempty_fields [of sample_filter no_backend initial_state]
      query_string_exactly_nonempty_fields [of empty_filter no_backend initial_state] e
    by (simp add: s enc u no_backend_def on_search_response_def cong: conj_cong)
qed

section \<open>Search responses\<close>

text \<open>
  C4. When the search request is answered with success status and the parsed payload
  is not an array (the object \<^verbatim>\<open>{}\<close>, for one), the result set becomes empty and
  nothing is alerted.
\<close>

theorem non_array_payload_empties_results:
  assumes "apiFetch (search_url (query st)) = Fulfilled res"
    and "res_ok res"
    and "res_json res = Fulfilled data"
    and "\<not> isArray data"
  shows "performSearch apiFetch st = (st\<lparr>searchResults := []\<rparr>, [])"
  using assms by (simp add: performSearch_def on_search_response_def)

theorem non_array_payload_empties_results_witness:
  "backend_sending (json_reply True (JObj [])) (search_url (query used_state))
     = Fulfilled (json_reply True (JObj []))
   \<and> res_ok (json_reply True (JObj []))
   \<and> res_json (json_reply True (JObj [])) = Fulfilled (JObj [])
   \<and> \<not> isArray (JObj [])
   \<and> performSearch (backend_sending (json_reply True (JObj []))) used_state
     = (used_state\<lparr>searchResults := []\<rparr>, [])"
proof -
  have h1: "backend_sending (json_reply True (JObj [])) (search_url (query used_state))
     = Fulfilled (json_reply True (JObj []))"
    by (simp add: backend_sending_def)
  have h2: "res_ok (json_reply True (JObj []))"
    and h3: "res_json (json_reply True (JObj [])) = Fulfilled (JObj [])"
    by (simp_all add: json_reply_def)
  have h4: "\<not> isArray (JObj [])" by simp
  from non_array_payload_empties_results
    [where apiFetch = "backend_sending (json_reply True (JObj []))" and st = used_state,
      OF h1 h2 h3 h4] h1 h2 h3 h4
  show ?thesis by simp
qed

text \<open>
  C6. When the search request is answered with success status and the parsed payload
  is an array, the new result set is that array, element for element in the same
  order, whatever the result set was before: nothing of the old one is kept, and
  nothing is alerted.
\<close>

theorem array_payload_replaces_results:
  assumes "apiFetch (search_url (query st)) = Fulfilled res"
    and "res_ok res"
    and "res_json res = Fulfilled (JArr rs)"
  shows "performSearch apiFetch st = (st\<lparr>searchResults := rs\<rparr>, [])
    \<and> searchResults (fst (performSearch apiFetch st)) = rs
    \<and> performSearch apiFetch (st\<lparr>searchResults := old\<rparr>) = (st\<lparr>searchResults := rs\<rparr>, [])"
  using assms by (simp add: performSearch_def on_search_response_def)

theorem array_payload_replaces_results_witness:
  "backend_sending (json_reply True (JArr [result_1, result_2])) (search_url (query used_state))
     = Fulfilled (json_reply True (JArr [result_1, result_2]))
   \<and> res_ok (json_reply True (JArr [result_1, result_2]))
   \<and> res_json (json_reply True (JArr [result_1, result_2])) = Fulfilled (JArr [result_1, result_2])
   \<and> searchResults used_state = [result_7]
   \<and> searchResults (fst (performSearch (backend_sending (json_reply True (JArr [result_1, result_2]))) used_state))
     = [result_1, result_2]"
proof -
  have h1: "backend_sending (json_reply True (JArr [result_1, result_2])) (search_url (query used_state))
     = Fulfilled (json_reply True (JArr [result_1, result_2]))"
    by (simp add: backend_sending_def)
  have h2: "res_ok (json_reply True (JArr [result_1, result_2]))"
    and h3: "res_json (json_reply True (JArr [result_1, result_2])) = Fulfilled (JArr [result_1, result_2])"
    by (simp_all add: json_reply_def)
  have h4: "searchResults used_state = [result_7]" by (simp add: used_state_def)
  from array_payload_replaces_results
    [where apiFetch = "backend_sending (json_reply True (JArr [result_1, result_2]))"
      and st = used_state, OF h1 h2 h3] h1 h2 h3 h4
  show ?thesis by simp
qed

text \<open>
  C10. When the search request is answered with success status but reading the body
  as JSON fails, the alert is the generic network-error message and the state, with
  its result set, stays as it was.
\<close>

theorem unparsable_success_body_network_error:
  assumes "apiFetch (search_url (query st)) = Fulfilled res"
    and "res_ok res"
    and "res_json res = Rejected"
  shows "performSearch apiFetch st = (st, [Alert (JStr ''Network error'')])"
  using assms by (simp add: performSearch_def on_search_response_def)

theorem unparsable_success_body_network_error_witness:
  "backend_sending (text_reply True ''<html>busy</html>'') (search_url (query used_state))
     = Fulfilled (text_reply True ''<html>busy</html>'')
   \<and> res_ok (text_reply True ''<html>busy</html>'')
   \<and> res_json (text_reply True ''<html>busy</html>'') = Rejected
   \<and> performSearch (backend_sending (text_reply True ''<html>busy</html>'')) used_state
     = (used_state, [Alert (JStr ''Network error'')])
   \<and> searchResults used_state = [result_7]"
proof -
  have h1: "backend_sending (text_reply True ''<html>busy</html>'') (search_url (query used_state))
     = Fulfilled (text_reply True ''<html>busy</html>'')"
    by (simp add: backend_sending_def)
  have h2: "res_ok (text_reply True ''<html>busy</html>'')"
    and h3: "res_json (text_reply True ''<html>busy</html>'') = Rejected"
    by (simp_all add: text_reply_def)
  have h4: "searchResults used_state = [result_7]" by (simp add: used_state_def)
  from unparsable_success_body_network_error
    [where apiFetch = "backend_sending (text_reply True ''<html>busy</html>'')"
      and st = used_state, OF h1 h2 h3] h1 h2 h3 h4
  show ?thesis by simp
qed

section \<open>Transport failures\<close>




section \<open>Search errors\<close>

text \<open>
  C3, as the code has it. For a search response without success status: when the body
  does not parse as JSON, the alert is \<^verbatim>\<open>Search failed\<close>; when it parses to a value
  other than \<^verbatim>\<open>null\<close>, the alert is its \<^verbatim>\<open>message\<close> if that is truthy (a
  non-empty string, for one), else its \<^verbatim>\<open>error\<close> if that is truthy, else
  \<^verbatim>\<open>Search failed\<close>. The state is unchanged in each case. For the payload
  \<^verbatim>\<open>{"message":"bad date"}\<close> the alert is \<^verbatim>\<open>bad date\<close>.
\<close>

theorem search_error_reason:
  assumes "apiFetch (search_url (query st)) = Fulfilled res"
    and "\<not> res_ok res"
  shows "(res_json res = Rejected \<longrightarrow>
            performSearch apiFetch st = (st, [Alert (JStr ''Search failed'')]))
       \<and> (res_json res = Fulfilled body \<and> get_prop body ''message'' = Inr (Some m)
            \<and> truthy (Some m) \<longrightarrow>
            performSearch apiFetch st = (st, [Alert m]))
       \<and> (res_json res = Fulfilled body \<and> get_prop body ''message'' = Inr mo \<and> \<not> truthy mo
            \<and> get_prop body ''error'' = Inr (Some r) \<and> truthy (Some r) \<longrightarrow>
            performSearch apiFetch st = (st, [Alert r]))
       \<and> (res_json res = Fulfilled body \<and> get_prop body ''message'' = Inr mo \<and> \<not> truthy mo
            \<and> get_prop body ''error'' = Inr ro \<and> \<not> truthy ro \<longrightarrow>
            performSearch apiFetch st = (st, [Alert (JStr ''Search failed'')]))"
proof -
  have falsy: "or_else x rest = rest" if "\<not> truthy x" for x rest
    using that by (cases x) simp_all
  have p: "performSearch apiFetch st =
      (case failure_reason (case res_json res of Rejected \<Rightarrow> JObj [] | Fulfilled v \<Rightarrow> v) of
         Inl e \<Rightarrow> (st, [Alert (JStr ''Network error'')])
       | Inr reason \<Rightarrow> (st, [Alert reason]))"
    using assms by (simp add: performSearch_def on_search_response_def)
  show ?thesis
    by (intro conjI impI) (auto simp: p failure_reason_def falsy)
qed

theorem search_error_reason_witness:
  "backend_sending (json_reply False bad_date_payload) (search_url (query used_state))
     = Fulfilled (json_reply False bad_date_payload)
   \<and> \<not> res_ok (json_reply False bad_date_payload)
   \<and> res_json (json_reply False bad_date_payload) = Fulfilled bad_date_payload
   \<and> get_prop bad_date_payload ''message'' = Inr (Some (JStr ''bad date''))
   \<and> truthy (Some (JStr ''bad date''))
   \<and> performSearch (backend_sending (json_reply False bad_date_payload)) used_state
     = (used_state, [Alert (JStr ''bad date'')])
   \<and> backend_sending (json_reply False unknown_camera_payload) (search_url (query used_state))
     = Fulfilled (json_reply False unknown_camera_payload)
   \<and> \<not> res_ok (json_reply False unknown_camera_payload)
   \<and> res_json (json_reply False unknown_camera_payload) = Fulfilled unknown_camera_payload
   \<and> get_prop unknown_camera_payload ''message'' = Inr None
   \<and> \<not> truthy None
   \<and> get_prop unknown_camera_payload ''error'' = Inr (Some (JStr ''unknown camera''))
   \<and> truthy (Some (JStr ''unknown camera''))
   \<and> performSearch (backend_sending (json_reply False unknown_camera_payload)) used_state
     = (used_state, [Alert (JStr ''unknown camera'')])
   \<and> backend_sending (text_reply False ''<html>502</html>'') (search_url (query used_state))
     = Fulfilled (text_reply False ''<html>502</html>'')
   \<and> \<not> res_ok (text_reply False ''<html>502</html>'')
   \<and> res_json (text_reply False ''<html>502</html>'') = Rejected
   \<and> performSearch (backend_sending (text_reply False ''<html>502</html>'')) used_state
     = (used_state, [Alert (JStr ''Search failed'')])"
proof -
  have a1: "backend_sending (json_reply False bad_date_payload) (search_url (query used_state))
     = Fulfilled (json_reply False bad_date_payload)"
    and a2: "backend_sending (json_reply False unknown_camera_payload) (search_url (query used_state))
     = Fulfilled (json_reply False unknown_camera_payload)"
    and a3: "backend_sending (text_reply False ''<html>502</html>'') (search_url (query used_state))
     = Fulfilled (text_reply False ''<html>502</html>'')"
    by (simp_all add: backend_sending_def)
  have b1: "\<not> res_ok (json_reply False bad_date_payload)"
    and b2: "\<not> res_ok (json_reply False unknown_camera_payload)"
    and c1: "res_json (json_reply False bad_date_payload) = Fulfilled bad_date_payload"
    and c2: "res_json (json_reply False unknown_camera_payload) = Fulfilled unknown_camera_payload"
    by (simp_all add: json_reply_def)
  have b3: "\<not> res_ok (text_reply False ''<html>502</html>'')"
    and c3: "res_json (text_reply False ''<html>502</html>'') = Rejected"
    by (simp_all add: text_reply_def)
  have g1: "get_prop bad_date_payload ''message'' = Inr (Some (JStr ''bad date''))"
    by (simp add: bad_date_payload_def)
  have g2: "get_prop unknown_camera_payload ''message'' = Inr None"
    "get_prop unknown_camera_payload ''error'' = Inr (Some (JStr ''unknown camera''))"
    by (simp_all add: unknown_camera_payload_def)
  have t: "truthy (Some (JStr ''bad date''))" "\<not> truthy None" "truthy (Some (JStr ''unknown camera''))"
    by simp_all
  from search_error_reason
    [where apiFetch = "backend_sending (json_reply False bad_date_payload)" and st = used_state
      and body = bad_date_payload and m = "JStr ''bad date''", OF a1 b1] c1 g1 t
  have 1: "performSearch (backend_sending (json_reply False bad_date_payload)) used_state
     = (used_state, [Alert (JStr ''bad date'')])" by blast
  from search_error_reason
    [where apiFetch = "backend_sending (json_reply False unknown_camera_payload)" and st = used_state
      and body = unknown_camera_payload and mo = None and r = "JStr ''unknown camera''", OF a2 b2]
    c2 g2 t
  have 2: "performSearch (backend_sending (json_reply False unknown_camera_payload)) used_state
     = (used_state, [Alert (JStr ''unknown camera'')])" by blast
  from search_error_reason
    [where apiFetch = "backend_sending (text_reply False ''<html>502</html>'')" and st = used_state,
      OF a3 b3] c3
  have 3: "performSearch (backend_sending (text_reply False ''<html>502</html>'')) used_state
     = (used_state, [Alert (JStr ''Search failed'')])" by blast
  from a1 a2 a3 b1 b2 b3 c1 c2 c3 g1 g2 t 1 2 3 show ?thesis by simp
qed

text \<open>
  C3 as stated fails where a field is present but falsy: for the error payload
  \<^verbatim>\<open>{"message":"","error":"bad date"}\<close> the \<^verbatim>\<open>message\<close> field is present with the
  value \<^verbatim>\<open>""\<close>, and the alert is \<^verbatim>\<open>bad date\<close>, the value of \<^verbatim>\<open>error\<close>.
\<close>

theorem empty_message_is_skipped:
  "get_prop empty_message_payload ''message'' = Inr (Some (JStr []))
   \<and> performSearch (backend_sending (json_reply False empty_message_payload)) used_state
       = (used_state, [Alert (JStr ''bad date'')])
   \<and> snd (performSearch (backend_sending (json_reply False empty_message_payload)) used_state)
       \<noteq> [Alert (JStr [])]"
  by (simp add: performSearch_def on_search_response_def backend_sending_def json_reply_def
      failure_reason_def empty_message_payload_def)

text \<open>
  The payload \<^verbatim>\<open>null\<close> is the one parsed value for which reading \<^verbatim>\<open>err.message\<close>
  throws: the \<^verbatim>\<open>catch\<close> then alerts \<^verbatim>\<open>Network error\<close>.
\<close>

lemma null_error_payload_reports_network_error:
  "performSearch (backend_sending (json_reply False JNull)) st
     = (st, [Alert (JStr ''Network error'')])"
  by (simp add: performSearch_def on_search_response_def backend_sending_def json_reply_def
      failure_reason_def)

section \<open>Failures keep the state\<close>

text \<open>
  C7. When a search or a video load fails, by a rejected request or by a response
  without success status, the state after it is the state before it: the result set,
  the playback URL and the query are as they were. More generally, whenever either
  operation alerts anything, the state is unchanged.
\<close>

theorem failed_operation_keeps_state:
  "((apiFetch (search_url (query st)) = Rejected
      \<or> (\<exists>res. apiFetch (search_url (query st)) = Fulfilled res \<and> \<not> res_ok res))
     \<longrightarrow> fst (performSearch apiFetch st) = st)
   \<and> ((apiFetch (''/video/decrypted/'' @ video_id) = Rejected
      \<or> (\<exists>res. apiFetch (''/video/decrypted/'' @ video_id) = Fulfilled res \<and> \<not> res_ok res))
     \<longrightarrow> fst (loadVideo apiFetch createObjectURL st video_id) = st)
   \<and> ((\<exists>v. Alert v \<in> set (snd (performSearch apiFetch st)))
     \<longrightarrow> fst (performSearch apiFetch st) = st)
   \<and> ((\<exists>v. Alert v \<in> set (snd (loadVideo apiFetch createObjectURL st video_id)))
     \<longrightarrow> fst (loadVideo apiFetch createObjectURL st video_id) = st)"
proof (intro conjI impI)
  assume "apiFetch (search_url (query st)) = Rejected
      \<or> (\<exists>res. apiFetch (search_url (query st)) = Fulfilled res \<and> \<not> res_ok res)"
  then show "fst (performSearch apiFetch st) = st"
    by (auto simp: performSearch_def on_search_response_def split: sum.splits)
next
  assume "apiFetch (''/video/decrypted/'' @ video_id) = Rejected
      \<or> (\<exists>res. apiFetch (''/video/decrypted/'' @ video_id) = Fulfilled res \<and> \<not> res_ok res)"
  then show "fst (loadVideo apiFetch createObjectURL st video_id) = st"
    by (auto simp: loadVideo_def on_video_response_def split: settled.splits)
next
  assume "\<exists>v. Alert v \<in> set (snd (performSearch apiFetch st))"
  then show "fst (performSearch apiFetch st) = st"
    by (auto simp: performSearch_def on_search_response_def split: settled.splits sum.splits if_splits)
next
  assume "\<exists>v. Alert v \<in> set (snd (loadVideo apiFetch createObjectURL st video_id))"
  then show "fst (loadVideo apiFetch createObjectURL st video_id) = st"
    by (auto simp: loadVideo_def on_video_response_def split: settled.splits if_splits)
qed

theorem failed_operation_keeps_state_witness:
  "no_backend (search_url (query used_state)) = Rejected
   \<and> fst (performSearch no_backend used_state) = used_state
   \<and> backend_sending (text_reply False ''video not found'') (''/video/decrypted/'' @ ''42'')
       = Fulfilled (text_reply False ''video not found'')
   \<and> \<not> res_ok (text_reply False ''video not found'')
   \<and> fst (loadVideo (backend_sending (text_reply False ''video not found'')) object_url used_state ''42'')
       = used_state
   \<and> videoUrl used_state = Some ''blob:viewer/0001''
   \<and> searchResults used_state = [result_7]"
proof -
  have a: "no_backend (search_url (query used_state)) = Rejected"
    by (simp add: no_backend_def)
  have b: "backend_sending (text_reply False ''video not found'') (''/video/decrypted/'' @ ''42'')
       = Fulfilled (text_reply False ''video not found'')"
    by (simp add: backend_sending_def)
  have c: "\<not> res_ok (text_reply False ''video not found'')"
    by (simp add: text_reply_def)
  have d: "videoUrl used_state = Some ''blob:viewer/0001''" "searchResults used_state = [result_7]"
    by (simp_all add: used_state_def)
  from failed_operation_keeps_state [of no_backend used_state "''42''" object_url] a
  have 1: "fst (performSearch no_backend used_state) = used_state" by blast
  from failed_operation_keeps_state
    [of "backend_sending (text_reply False ''video not found'')" used_state "''42''" object_url] b c
  have 2: "fst (loadVideo (backend_sending (text_reply False ''video not found'')) object_url used_state ''42'')
       = used_state" by blast
  from a b c d 1 2 show ?thesis by simp
qed

section \<open>Video load errors\<close>

text \<open>
  C8. For a video response without success status whose body is read as text: when
  the text is not empty the alert is that text, unchanged; when it is empty the alert
  is \<^verbatim>\<open>Failed to load video\<close>.
\<close>

theorem video_failure_reason:
  assumes "apiFetch (''/video/decrypted/'' @ video_id) = Fulfilled res"
    and "\<not> res_ok res"
    and "res_text res = Fulfilled txt"
  shows "(txt \<noteq> [] \<longrightarrow>
            loadVideo apiFetch createObjectURL st video_id = (st, [Alert (JStr txt)]))
       \<and> (txt = [] \<longrightarrow>
            loadVideo apiFetch createObjectURL st video_id
              = (st, [Alert (JStr ''Failed to load video'')]))"
  using assms by (simp add: loadVideo_def on_video_response_def)

theorem video_failure_reason_witness:
  "backend_sending (text_reply False ''video not found'') (''/video/decrypted/'' @ ''42'')
       = Fulfilled (text_reply False ''video not found'')
   \<and> \<not> res_ok (text_reply False ''video not found'')
   \<and> res_text (text_reply False ''video not found'') = Fulfilled ''video not found''
   \<and> loadVideo (backend_sending (text_reply False ''video not found'')) object_url used_state ''42''
       = (used_state, [Alert (JStr ''video not found'')])
   \<and> backend_sending (text_reply False []) (''/video/decrypted/'' @ ''42'')
       = Fulfilled (text_reply False [])
   \<and> \<not> res_ok (text_reply False [])
   \<and> res_text (text_reply False []) = Fulfilled []
   \<and> loadVideo (backend_sending (text_reply False [])) object_url used_state ''42''
       = (used_state, [Alert (JStr ''Failed to load video'')])"
proof -
  have a: "backend_sending (text_reply False ''video not found'') (''/video/decrypted/'' @ ''42'')
       = Fulfilled (text_reply False ''video not found'')"
    and a': "backend_sending (text_reply False []) (''/video/decrypted/'' @ ''42'')
       = Fulfilled (text_reply False [])"
    by (simp_all add: backend_sending_def)
  have b: "\<not> res_ok (text_reply False ''video not found'')"
    and b': "\<not> res_ok (text_reply False [])"
    and c: "res_text (text_reply False ''video not found'') = Fulfilled ''video not found''"
    and c': "res_text (text_reply False []) = Fulfilled []"
    by (simp_all add: text_reply_def)
  from video_failure_reason
    [where apiFetch = "backend_sending (text_reply False ''video not found'')"
      and createObjectURL = object_url and st = used_state, OF a b c]
    video_failure_reason
    [where apiFetch = "backend_sending (text_reply False [])"
      and createObjectURL = object_url and st = used_state, OF a' b' c']
    a a' b b' c c'
  show ?thesis by simp
qed

section \<open>Play and pause\<close>

lemma reachable_has_source:
  "reachable r \<Longrightarrow> \<exists>video. r = Some video \<and> src video = Some ''/video.mp4''"
proof (induction rule: reachable.induct)
  case mount
  show ?case by simp
next
  case (click_playPause r v cmds)
  then show ?case by (auto simp: playPause_def split: if_splits)
next
  case (click_stopVideo r v cmds)
  then show ?case by (auto simp: stopVideo_def)
next
  case (platform v p t)
  then show ?case by simp
qed



text \<open>
  With no element in the ref the function reads \<^verbatim>\<open>video.paused\<close> of \<^verbatim>\<open>null\<close>:
  it throws, and no command is issued. The buttons exist only while the element does.
\<close>

lemma playPause_unmounted_throws: "playPause None = Inl TypeError \<and> \<not> reachable None"
  using reachable_has_source [of None] by (auto simp: playPause_def)

section \<open>The sign-in gate\<close>

text \<open>
  C2 at a caller who is not authenticated: \<open>App\<close> renders the player component's
  message and nothing else, a view that binds no handler at all, so neither the search
  and player surface nor any way to sign in is there; \<open>InnerApp\<close>, which \<open>App\<close> does
  not use, would render the sign-in card, whose form and inputs bind the sign-in
  handlers.
\<close>

theorem app_signed_out_has_no_sign_in:
  "\<not> isAuthenticated signed_out
   \<and> App signed_out used_state = Inr (Message ''Please sign in to view videos.'')
   \<and> handlers (Message ''Please sign in to view videos.'') = []
   \<and> InnerApp signed_out used_state = Inr (SignInCard None)
   \<and> handlers (SignInCard None)
       = [SignIn_handleSubmit, SignIn_handleChange ''email'', SignIn_handleChange ''password'']"
  by (simp add: App_def Player_def InnerApp_def signed_out_def)

text \<open>
  Whatever the state, a caller who is not authenticated gets a view with neither the
  search form's submit handler nor a Load button.
\<close>

lemma signed_out_player_is_gated:
  assumes "\<not> isAuthenticated auth" and "App auth st = Inr v"
  shows "OnSubmit_performSearch \<notin> set (handlers v) \<and> OnClick_loadVideo r \<notin> set (handlers v)"
  using assms by (auto simp: App_def Player_def)

section \<open>The paths that succeed\<close>

text \<open>
  A signed-in caller gets the search form and a Load button for every result; a
  video response with success status binds the new object URL and schedules
  \<^verbatim>\<open>play()\<close> after 100 ms; \<open>stopVideo\<close> pauses and rewinds.
\<close>

lemma signed_in_player_view:
  "App signed_in used_state = Inr (PlayerView sample_filter [result_7] (Some ''blob:viewer/0001''))
   \<and> OnSubmit_performSearch \<in> set (handlers (PlayerView sample_filter [result_7] (Some ''blob:viewer/0001'')))
   \<and> OnClick_loadVideo result_7 \<in> set (handlers (PlayerView sample_filter [result_7] (Some ''blob:viewer/0001'')))"
  by (simp add: App_def Player_def signed_in_def used_state_def result_7_def child_ok_def)

lemma loadVideo_success:
  assumes "apiFetch (''/video/decrypted/'' @ video_id) = Fulfilled res"
    and "res_ok res"
    and "res_blob res = Fulfilled b"
  shows "loadVideo apiFetch createObjectURL st video_id
           = (st\<lparr>videoUrl := Some (createObjectURL b)\<rparr>, [PlayAfter 100])"
  using assms by (simp add: loadVideo_def on_video_response_def)

lemma stopVideo_rewinds:
  "stopVideo (Some video) = Inr (video\<lparr>paused := True, currentTime := 0\<rparr>, [Pause])"
  by (simp add: stopVideo_def)

end
